theory Spec2Isabelle
  imports Main "HOL-Library.Word" "HOL-Library.Signed_Division"
begin

unbundle bit_operations_syntax

section \<open>Proof-of-work difficulty rules of pow.cpp\<close>

text \<open>
  The development follows \<^verbatim>\<open>src/pow.cpp\<close>. Unsigned machine integers are words:
  a compact target is a \<open>32 word\<close>, an \<^verbatim>\<open>arith_uint256\<close> is a \<open>256 word\<close> whose
  \<open>+\<close>, \<open>-\<close> and \<open>*\<close> wrap modulo \<open>2 ^ 256\<close>. The signed quantities of the file
  (\<^verbatim>\<open>int\<close> heights, \<^verbatim>\<open>int64_t\<close> times and spacings) are modelled as \<open>int\<close>: signed
  overflow is undefined in C++, so the model describes the executions in which these
  stay in range, and the one place where a signed value meets unsigned 64-bit
  arithmetic (the return of \<^verbatim>\<open>GetBlockProofEquivalentTime\<close>) is written with a
  \<open>64 word\<close>.
\<close>

subsection \<open>Data\<close>

type_synonym uint32 = "32 word"
type_synonym uint64 = "64 word"
type_synonym arith_uint256 = "256 word"
type_synonym uint256 = "256 word"

text \<open>The two ways in which the code can stop without a result.\<close>

datatype pow_error = AssertionFailed | DivisionByZero

text \<open>
  Modelled from the spec: \<^verbatim>\<open>CBlockIndex\<close> is declared in \<^verbatim>\<open>chain.h\<close>, which is not
  among the sources. An entry of the ancestor chain view exposes its height, its block
  timestamp, the compact target it used, its cumulative work and a back-link to its
  immediate predecessor (none for the genesis entry). \<open>nTime\<close> holds the value that
  \<^verbatim>\<open>GetBlockTime()\<close> returns.
\<close>

datatype CBlockIndex =
  CBlockIndex (nHeight: int) (nTime: int) (nBits: uint32) (nChainWork: arith_uint256)
    (pprev: "CBlockIndex option")

definition GetBlockTime :: "CBlockIndex \<Rightarrow> int" where
  "GetBlockTime pindex = nTime pindex"

text \<open>
  Modelled from the spec: \<^verbatim>\<open>CBlockHeader\<close> is declared in \<^verbatim>\<open>primitives/block.h\<close>, which
  is not among the sources. Of the candidate header the code reads the timestamp only.
\<close>

record CBlockHeader =
  hdr_nTime :: int

definition GetBlockTime_hdr :: "CBlockHeader \<Rightarrow> int" where
  "GetBlockTime_hdr pblock = hdr_nTime pblock"

text \<open>
  Modelled from the spec: \<^verbatim>\<open>Consensus::Params\<close> is declared in \<^verbatim>\<open>consensus/params.h\<close>,
  which is not among the sources. The configuration holds the absolute difficulty floor,
  the nominal spacing between blocks, the adjustment-interval length (the value that
  \<^verbatim>\<open>DifficultyAdjustmentInterval()\<close> returns), the flag permitting minimum-difficulty
  blocks and the flag disabling retargeting.
\<close>

record Params =
  powLimit :: uint256
  nPowTargetSpacing :: int
  DifficultyAdjustmentInterval :: int
  fPowAllowMinDifficultyBlocks :: bool
  fPowNoRetargeting :: bool

text \<open>
  Modelled from the spec: \<^verbatim>\<open>UintToArith256\<close> is defined in \<^verbatim>\<open>arith_uint256.cpp\<close>, which
  is not among the sources. It reads the 256-bit blob as a 256-bit unsigned integer.
\<close>

definition UintToArith256 :: "uint256 \<Rightarrow> arith_uint256" where
  "UintToArith256 a = a"

subsection \<open>The 256-bit helpers and the compact codec\<close>

text \<open>
  Modelled from the spec: \<^verbatim>\<open>arith_uint256::bits\<close> is not among the sources. It is the
  number of significant bits of the value: the position of the highest set bit plus one,
  found by looking from bit 255 downwards, and 0 for the value 0.
\<close>

fun highest_bit :: "nat \<Rightarrow> arith_uint256 \<Rightarrow> nat" where
  "highest_bit 0 a = 0"
| "highest_bit (Suc n) a = (if bit a n then Suc n else highest_bit n a)"

definition bits :: "arith_uint256 \<Rightarrow> nat" where
  "bits a = highest_bit 256 a"

text \<open>
  Modelled from the spec: \<^verbatim>\<open>arith_uint256::GetLow64\<close> is not among the sources. It is
  the low 64 bits of the value.
\<close>

definition GetLow64 :: "arith_uint256 \<Rightarrow> uint64" where
  "GetLow64 a = ucast a"

text \<open>
  Modelled from the spec: the division operator of \<^verbatim>\<open>arith_uint256\<close> is not among the
  sources. The quotient is the floor of the exact quotient; a zero divisor gives no
  quotient, which is the error value here.
\<close>

definition arith_div :: "arith_uint256 \<Rightarrow> arith_uint256 \<Rightarrow> pow_error + arith_uint256" where
  "arith_div a b = (if b = 0 then Inl DivisionByZero else Inr (a div b))"

text \<open>
  Modelled from the spec: \<^verbatim>\<open>arith_uint256::SetCompact\<close> is not among the sources. The
  top byte of the compact value is the exponent (the number of significant bytes), the
  low 23 bits are the mantissa and bit 23 is the sign bit. The magnitude is the mantissa
  moved to the byte position the exponent gives; the negative flag is set when the
  sign bit is set on a nonzero mantissa, the overflow flag when the exponent places a
  nonzero mantissa beyond 256 bits. The result is (magnitude, negative, overflow).
\<close>

definition SetCompact :: "uint32 \<Rightarrow> arith_uint256 \<times> bool \<times> bool" where
  "SetCompact nCompact =
     (let nSize = unat (drop_bit 24 nCompact);
          nWord = (if nSize \<le> 3
                   then drop_bit (8 * (3 - nSize)) (nCompact AND 0x007fffff)
                   else nCompact AND 0x007fffff);
          bn = (if nSize \<le> 3 then ucast nWord
                else push_bit (8 * (nSize - 3)) (ucast nWord));
          fNegative = (nWord \<noteq> 0 \<and> nCompact AND 0x00800000 \<noteq> 0);
          fOverflow = (nWord \<noteq> 0 \<and>
                        (nSize > 34 \<or> (nWord > 0xff \<and> nSize > 33)
                          \<or> (nWord > 0xffff \<and> nSize > 32)))
      in (bn, fNegative, fOverflow))"

text \<open>
  Modelled from the spec: \<^verbatim>\<open>arith_uint256::GetCompact\<close> is not among the sources. It
  chooses the least exponent (number of significant bytes) and the three top bytes as
  mantissa; a mantissa whose sign bit would be set is divided by 256 and the exponent
  increased.
\<close>

definition GetCompact :: "arith_uint256 \<Rightarrow> uint32" where
  "GetCompact a =
     (let nSize = (bits a + 7) div 8;
          nCompact = (if nSize \<le> 3
                      then push_bit (8 * (3 - nSize)) (ucast (GetLow64 a) :: uint32)
                      else ucast (GetLow64 (drop_bit (8 * (nSize - 3)) a)));
          nCompact2 = (if nCompact AND 0x00800000 \<noteq> 0 then drop_bit 8 nCompact else nCompact);
          nSize2 = (if nCompact AND 0x00800000 \<noteq> 0 then nSize + 1 else nSize)
      in nCompact2 OR push_bit 24 (of_nat nSize2))"

subsection \<open>The constants of the three eras\<close>

definition nTargetTimespan :: int where "nTargetTimespan = 45"
definition nTargetSpacing :: int where "nTargetSpacing = 45"
definition nInterval :: int where "nInterval = nTargetTimespan div nTargetSpacing"

definition nHeightVer2 :: int where "nHeightVer2 = 32000"
definition nHeightVer3 :: int where "nHeightVer3 = 90000"

definition nAveragingInterval1 :: int where "nAveragingInterval1 = nInterval * 160"
definition nAveragingTargetTimespan1 :: int where
  "nAveragingTargetTimespan1 = nAveragingInterval1 * nTargetSpacing"

definition nAveragingInterval2 :: int where "nAveragingInterval2 = nInterval * 8"
definition nAveragingTargetTimespan2 :: int where
  "nAveragingTargetTimespan2 = nAveragingInterval2 * nTargetSpacing"

definition nAveragingInterval3 :: int where "nAveragingInterval3 = nAveragingInterval2"
definition nAveragingTargetTimespan3 :: int where
  "nAveragingTargetTimespan3 = nAveragingTargetTimespan2"

definition nMaxAdjustDown1 :: int where "nMaxAdjustDown1 = 10"
definition nMaxAdjustUp1 :: int where "nMaxAdjustUp1 = 1"
definition nMaxAdjustDown2 :: int where "nMaxAdjustDown2 = 1"
definition nMaxAdjustUp2 :: int where "nMaxAdjustUp2 = 1"
definition nMaxAdjustDown3 :: int where "nMaxAdjustDown3 = 3"
definition nMaxAdjustUp3 :: int where "nMaxAdjustUp3 = 1"

definition nMinActualTimespan1 :: int where
  "nMinActualTimespan1 = nAveragingTargetTimespan1 * (100 - nMaxAdjustUp1) div 100"
definition nMaxActualTimespan1 :: int where
  "nMaxActualTimespan1 = nAveragingTargetTimespan1 * (100 + nMaxAdjustDown1) div 100"

definition nMinActualTimespan2 :: int where
  "nMinActualTimespan2 = nAveragingTargetTimespan2 * (100 - nMaxAdjustUp2) div 100"
definition nMaxActualTimespan2 :: int where
  "nMaxActualTimespan2 = nAveragingTargetTimespan2 * (100 + nMaxAdjustDown2) div 100"

definition nMinActualTimespan3 :: int where
  "nMinActualTimespan3 = nAveragingTargetTimespan3 * (100 - nMaxAdjustUp3) div 100"
definition nMaxActualTimespan3 :: int where
  "nMaxActualTimespan3 = nAveragingTargetTimespan3 * (100 + nMaxAdjustDown3) div 100"

subsection \<open>CalculateNextWorkRequired\<close>

text \<open>
  The era selection of \<^verbatim>\<open>CalculateNextWorkRequired\<close>: the candidate height
  \<open>nHeight + 1\<close> against the two activation heights gives the bounds of the actual
  timespan and the averaging timespan.
\<close>

definition era_nMinActualTimespan :: "CBlockIndex \<Rightarrow> int" where
  "era_nMinActualTimespan pindexLast =
     (if nHeight pindexLast + 1 \<ge> nHeightVer3 then nMinActualTimespan3
      else if nHeight pindexLast + 1 \<ge> nHeightVer2 then nMinActualTimespan2
      else nMinActualTimespan1)"

definition era_nMaxActualTimespan :: "CBlockIndex \<Rightarrow> int" where
  "era_nMaxActualTimespan pindexLast =
     (if nHeight pindexLast + 1 \<ge> nHeightVer3 then nMaxActualTimespan3
      else if nHeight pindexLast + 1 \<ge> nHeightVer2 then nMaxActualTimespan2
      else nMaxActualTimespan1)"

definition era_nAveragingTargetTimespan :: "CBlockIndex \<Rightarrow> int" where
  "era_nAveragingTargetTimespan pindexLast =
     (if nHeight pindexLast + 1 \<ge> nHeightVer3 then nAveragingTargetTimespan3
      else if nHeight pindexLast + 1 \<ge> nHeightVer2 then nAveragingTargetTimespan2
      else nAveragingTargetTimespan1)"

text \<open>
  The adjustment-step limit: the two successive \<^verbatim>\<open>if\<close> statements on
  \<^verbatim>\<open>nActualTimespan\<close>, in the order of the source.
\<close>

definition limit_adjustment_step :: "CBlockIndex \<Rightarrow> int \<Rightarrow> int" where
  "limit_adjustment_step pindexLast nFirstBlockTime =
     (let nActualTimespan = GetBlockTime pindexLast - nFirstBlockTime;
          nActualTimespan = (if nActualTimespan < era_nMinActualTimespan pindexLast
                             then era_nMinActualTimespan pindexLast else nActualTimespan);
          nActualTimespan = (if nActualTimespan > era_nMaxActualTimespan pindexLast
                             then era_nMaxActualTimespan pindexLast else nActualTimespan)
      in nActualTimespan)"

text \<open>
  The retarget itself. \<^verbatim>\<open>bnNew *= nActualTimespan\<close> multiplies in 256 bits and drops
  the carry; \<^verbatim>\<open>bnNew /= nAveragingTargetTimespan\<close> divides by a nonzero constant. The
  flags of \<^verbatim>\<open>SetCompact\<close> are not read here.
\<close>

definition CalculateNextWorkRequired :: "CBlockIndex \<Rightarrow> int \<Rightarrow> Params \<Rightarrow> uint32" where
  "CalculateNextWorkRequired pindexLast nFirstBlockTime params =
     (if fPowNoRetargeting params then nBits pindexLast
      else
        let nActualTimespan = limit_adjustment_step pindexLast nFirstBlockTime;
            bnPowLimit = UintToArith256 (powLimit params);
            bnNew = fst (SetCompact (nBits pindexLast));
            bnNew = bnNew * word_of_int nActualTimespan;
            bnNew = bnNew div word_of_int (era_nAveragingTargetTimespan pindexLast);
            bnNew = (if bnNew > bnPowLimit then bnPowLimit else bnNew)
        in GetCompact bnNew)"

subsection \<open>GetNextWorkRequired\<close>

text \<open>
  The loop of the test-network rule: it goes back while the entry has a predecessor, its
  height is not a multiple of the adjustment interval and it used the minimum-difficulty
  target. The remainder is C++'s (\<open>smod\<close>, truncating); it is evaluated only when the
  entry has a predecessor, and a zero interval stops the program there.
\<close>

fun last_non_min_difficulty :: "int \<Rightarrow> uint32 \<Rightarrow> CBlockIndex \<Rightarrow> pow_error + uint32" where
  "last_non_min_difficulty interval nProofOfWorkLimit (CBlockIndex h t b w None) = Inr b"
| "last_non_min_difficulty interval nProofOfWorkLimit (CBlockIndex h t b w (Some p)) =
     (if interval = 0 then Inl DivisionByZero
      else if h smod interval \<noteq> 0 \<and> b = nProofOfWorkLimit
           then last_non_min_difficulty interval nProofOfWorkLimit p
           else Inr b)"

text \<open>
  The loop that goes back to the first block of the averaging window: at most \<open>n\<close>
  steps, stopping early at a null pointer.
\<close>

fun go_back :: "nat \<Rightarrow> CBlockIndex option \<Rightarrow> CBlockIndex option" where
  "go_back 0 pindexFirst = pindexFirst"
| "go_back (Suc n) None = None"
| "go_back (Suc n) (Some e) = go_back n (pprev e)"

definition GetNextWorkRequired ::
  "CBlockIndex option \<Rightarrow> CBlockHeader \<Rightarrow> Params \<Rightarrow> pow_error + uint32" where
  "GetNextWorkRequired pindexLast pblock params =
     (let nProofOfWorkLimit = GetCompact (UintToArith256 (powLimit params)) in
      (case pindexLast of
        None \<Rightarrow> Inr nProofOfWorkLimit
      | Some tip \<Rightarrow>
          if nHeight tip + 1 < nAveragingInterval1 then Inr nProofOfWorkLimit
          else if fPowAllowMinDifficultyBlocks params then
            (if GetBlockTime_hdr pblock > GetBlockTime tip + nPowTargetSpacing params * 2
             then Inr nProofOfWorkLimit
             else last_non_min_difficulty (DifficultyAdjustmentInterval params)
                    nProofOfWorkLimit tip)
          else
            let nAveragingInterval =
                  (if nHeight tip + 1 \<ge> nHeightVer3 then nAveragingInterval3
                   else if nHeight tip + 1 \<ge> nHeightVer2 then nAveragingInterval2
                   else nAveragingInterval1)
            in (case go_back (nat (nAveragingInterval - 1)) (Some tip) of
                  None \<Rightarrow> Inl AssertionFailed
                | Some pindexFirst \<Rightarrow>
                    Inr (CalculateNextWorkRequired tip (GetBlockTime pindexFirst) params))))"

subsection \<open>CheckProofOfWork\<close>

definition CheckProofOfWork :: "uint256 \<Rightarrow> uint32 \<Rightarrow> Params \<Rightarrow> bool" where
  "CheckProofOfWork hash nBits' params =
     (case SetCompact nBits' of (bnTarget, fNegative, fOverflow) \<Rightarrow>
        if fNegative \<or> bnTarget = 0 \<or> fOverflow
           \<or> bnTarget > UintToArith256 (powLimit params)
        then False
        else if UintToArith256 hash > bnTarget then False
        else True)"

subsection \<open>GetBlockProof and GetBlockProofEquivalentTime\<close>

definition GetBlockProof :: "CBlockIndex \<Rightarrow> pow_error + arith_uint256" where
  "GetBlockProof block =
     (case SetCompact (nBits block) of (bnTarget, fNegative, fOverflow) \<Rightarrow>
        if fNegative \<or> fOverflow \<or> bnTarget = 0 then Inr 0
        else (case arith_div (NOT bnTarget) (bnTarget + 1) of
                Inl e \<Rightarrow> Inl e
              | Inr q \<Rightarrow> Inr (q + 1)))"

text \<open>
  \<^verbatim>\<open>sign * r.GetLow64()\<close> multiplies an \<^verbatim>\<open>int\<close> with a \<^verbatim>\<open>uint64_t\<close>: the sign is
  converted to 64 unsigned bits, the product wraps, and the return converts it to
  \<^verbatim>\<open>int64_t\<close>. \<^verbatim>\<open>arith_uint256(params.nPowTargetSpacing)\<close> converts the spacing to 64
  unsigned bits first.
\<close>

definition GetBlockProofEquivalentTime ::
  "CBlockIndex \<Rightarrow> CBlockIndex \<Rightarrow> CBlockIndex \<Rightarrow> Params \<Rightarrow> pow_error + int" where
  "GetBlockProofEquivalentTime to from tip params =
     (let r = (if nChainWork to > nChainWork from
               then nChainWork to - nChainWork from
               else nChainWork from - nChainWork to);
          sign = (if nChainWork to > nChainWork from then 1 else - 1 :: int)
      in (case GetBlockProof tip of
            Inl e \<Rightarrow> Inl e
          | Inr work \<Rightarrow>
              (case arith_div
                      (r * ucast (word_of_int (nPowTargetSpacing params) :: uint64)) work of
                 Inl e \<Rightarrow> Inl e
               | Inr r2 \<Rightarrow>
                   (if bits r2 > 63 then Inr (sign * (2 ^ 63 - 1))
                    else Inr (sint (word_of_int sign * GetLow64 r2))))))"

subsection \<open>The ancestor chain as a list\<close>

text \<open>
  The entries reached from an entry through the back-links, the entry itself first and
  the entry without predecessor last. The code never builds this list; it is the view of
  the chain in which the walk of the test-network rule is described.
\<close>

fun ancestors :: "CBlockIndex \<Rightarrow> CBlockIndex list" where
  "ancestors (CBlockIndex h t b w None) = [CBlockIndex h t b w None]"
| "ancestors (CBlockIndex h t b w (Some p)) = CBlockIndex h t b w (Some p) # ancestors p"

section \<open>Properties\<close>

lemmas era_constants =
  nTargetTimespan_def nTargetSpacing_def nInterval_def nHeightVer2_def nHeightVer3_def
  nAveragingInterval1_def nAveragingTargetTimespan1_def
  nAveragingInterval2_def nAveragingTargetTimespan2_def
  nAveragingInterval3_def nAveragingTargetTimespan3_def
  nMaxAdjustDown1_def nMaxAdjustUp1_def nMaxAdjustDown2_def nMaxAdjustUp2_def
  nMaxAdjustDown3_def nMaxAdjustUp3_def
  nMinActualTimespan1_def nMaxActualTimespan1_def
  nMinActualTimespan2_def nMaxActualTimespan2_def
  nMinActualTimespan3_def nMaxActualTimespan3_def

subsection \<open>Arithmetic of the work formula\<close>

lemma SetCompact_succ_nonzero: "fst (SetCompact c) + 1 \<noteq> 0"
proof
  assume "fst (SetCompact c) + 1 = 0"
  then have m: "fst (SetCompact c) = - 1"
    by (simp add: eq_neg_iff_add_eq_0)
  show False
  proof (cases "unat (drop_bit 24 c) \<le> 3")
    case True
    with m have "bit (ucast (drop_bit (8 * (3 - unat (drop_bit 24 c))) (c AND 0x007fffff) :: uint32) :: arith_uint256) 255"
      by (simp add: SetCompact_def Let_def)
    then show False by (auto simp add: bit_ucast_iff dest: bit_imp_le_length)
  next
    case False
    with m have "bit (push_bit (8 * (unat (drop_bit 24 c) - 3)) (ucast (c AND 0x007fffff) :: arith_uint256)) 0"
      by (simp add: SetCompact_def Let_def)
    with False show False by (simp add: bit_push_bit_iff)
  qed
qed

lemma work_formula:
  fixes t :: arith_uint256
  assumes "t \<noteq> 0" "t + 1 \<noteq> 0"
  shows "unat (NOT t div (t + 1) + 1) = 2 ^ 256 div (unat t + 1)"
proof -
  have tlt: "unat t < 2 ^ 256" using unsigned_less [of t] by simp
  have tpos: "0 < unat t" using assms(1) by (simp add: unat_gt_0)
  have "unat t \<noteq> 2 ^ 256 - 1"
  proof
    assume "unat t = 2 ^ 256 - 1"
    then have "unat (t + 1) = 0" by (simp add: unat_word_ariths)
    with assms(2) show False by (simp add: unat_eq_0)
  qed
  with tlt have t1: "unat t + 1 < 2 ^ 256" by simp
  then have s: "unat (t + 1) = unat t + 1"
    using unat_add_lem [of t 1] by simp
  have n: "unat (NOT t) = 2 ^ 256 - 1 - unat t"
  proof -
    have "NOT t = - 1 - t" by (simp add: not_eq_complement)
    moreover have "unat (- 1 - t) = unat (- 1 :: arith_uint256) - unat t"
      by (rule unat_sub) simp
    moreover have "unat (- 1 :: arith_uint256) = 2 ^ 256 - 1"
      by (simp add: unsigned_minus_1_eq_mask mask_eq_exp_minus_1)
    ultimately show ?thesis by simp
  qed
  have q: "unat (NOT t div (t + 1)) = (2 ^ 256 - 1 - unat t) div (unat t + 1)"
    by (simp only: unat_div s n)
  have e: "(2 ^ 256 - 1 - unat t) div (unat t + 1) + 1 = 2 ^ 256 div (unat t + 1)"
  proof -
    have "(2::nat) ^ 256 = (2 ^ 256 - 1 - unat t) + (unat t + 1)" using t1 by simp
    then have "(2::nat) ^ 256 div (unat t + 1) = ((2 ^ 256 - 1 - unat t) + (unat t + 1)) div (unat t + 1)"
      by simp
    also have "\<dots> = (2 ^ 256 - 1 - unat t) div (unat t + 1) + 1"
      by (simp only: div_add_self2)
    finally show ?thesis by simp
  qed
  have "(2::nat) ^ 256 div (unat t + 1) \<le> 2 ^ 256 div 2"
    using tpos by (intro div_le_mono2) simp_all
  then have b: "(2::nat) ^ 256 div (unat t + 1) < 2 ^ 256" by simp
  have "unat (NOT t div (t + 1)) + unat (1 :: arith_uint256) < 2 ^ 256"
    using q e b by simp
  then have "unat (NOT t div (t + 1) + 1) = unat (NOT t div (t + 1)) + 1"
    using unat_add_lem [of "NOT t div (t + 1)" 1] by simp
  with q e show ?thesis by simp
qed

lemma GetBlockProof_invalid:
  assumes "SetCompact (nBits block) = (t, neg, ovf)" "neg \<or> ovf \<or> t = 0"
  shows "GetBlockProof block = Inr 0"
  using assms by (auto simp add: GetBlockProof_def)

lemma GetBlockProof_valid:
  assumes "SetCompact (nBits block) = (t, False, False)" "t \<noteq> 0"
  shows "GetBlockProof block = Inr (NOT t div (t + 1) + 1)"
proof -
  have "t + 1 \<noteq> 0" using SetCompact_succ_nonzero [of "nBits block"] assms(1) by simp
  with assms show ?thesis by (simp add: GetBlockProof_def arith_div_def)
qed

lemma work_value_pos:
  fixes t :: arith_uint256
  assumes "t \<noteq> 0" "t + 1 \<noteq> 0"
  shows "NOT t div (t + 1) + 1 \<noteq> 0"
proof -
  have "unat t < 2 ^ 256" using unsigned_less [of t] by simp
  then have "unat t + 1 \<le> 2 ^ 256" by simp
  then have "0 < (2::nat) ^ 256 div (unat t + 1)"
    by (simp only: div_greater_zero_iff) simp
  then have "unat (NOT t div (t + 1) + 1) \<noteq> 0"
    using work_formula [OF assms] by simp
  then show ?thesis by (simp add: unat_eq_0)
qed



subsection \<open>GetBlockProof\<close>

text \<open>
  Claim C5. For every block entry, \<open>GetBlockProof\<close> returns a value and never the
  error: it returns 0 when the compact target decodes with the negative flag, with the
  overflow flag or to a zero magnitude; otherwise it returns
  \<open>NOT target div (target + 1) + 1\<close> computed in 256-bit unsigned arithmetic, and this
  value is the floor of \<open>2 ^ 256 / (target + 1)\<close>.
\<close>

theorem GetBlockProof_work:
  "(\<exists>w. GetBlockProof block = Inr w) \<and>
   (case SetCompact (nBits block) of (bnTarget, fNegative, fOverflow) \<Rightarrow>
      if fNegative \<or> fOverflow \<or> bnTarget = 0 then GetBlockProof block = Inr 0
      else GetBlockProof block = Inr (NOT bnTarget div (bnTarget + 1) + 1)
           \<and> unat (NOT bnTarget div (bnTarget + 1) + 1) = 2 ^ 256 div (unat bnTarget + 1))"
proof -
  obtain t neg ovf where s: "SetCompact (nBits block) = (t, neg, ovf)"
    by (cases "SetCompact (nBits block)")
  show ?thesis
  proof (cases "neg \<or> ovf \<or> t = 0")
    case True
    then have "GetBlockProof block = Inr 0" by (rule GetBlockProof_invalid [OF s])
    with s True show ?thesis by auto
  next
    case False
    then have s': "SetCompact (nBits block) = (t, False, False)" and t: "t \<noteq> 0"
      using s by simp_all
    have t1: "t + 1 \<noteq> 0" using SetCompact_succ_nonzero [of "nBits block"] s by simp
    have "GetBlockProof block = Inr (NOT t div (t + 1) + 1)"
      by (rule GetBlockProof_valid [OF s' t])
    moreover have "unat (NOT t div (t + 1) + 1) = 2 ^ 256 div (unat t + 1)"
      by (rule work_formula [OF t t1])
    ultimately show ?thesis using s False by simp
  qed
qed

theorem GetBlockProof_work_witness:
  "GetBlockProof (CBlockIndex 200 10000 0x1e0fffff 0 None) = Inr 0x100001
   \<and> GetBlockProof (CBlockIndex 200 10000 0x01800000 0 None) = Inr 0
   \<and> GetBlockProof (CBlockIndex 200 10000 0x01810000 0 None) = Inr 0
   \<and> GetBlockProof (CBlockIndex 200 10000 0x23000001 0 None) = Inr 0"
proof -
  have a: "SetCompact 0x1e0fffff = (0xfffff000000000000000000000000000000000000000000000000000000, False, False)"
    by code_simp
  have b: "SetCompact 0x01800000 = (0, False, False)" by code_simp
  have c: "SetCompact 0x01810000 = (1, True, False)" by code_simp
  have d: "SetCompact 0x23000001 = (0, False, True)" by code_simp
  show ?thesis
    using GetBlockProof_work [of "CBlockIndex 200 10000 0x1e0fffff 0 None"]
      GetBlockProof_work [of "CBlockIndex 200 10000 0x01800000 0 None"]
      GetBlockProof_work [of "CBlockIndex 200 10000 0x01810000 0 None"]
      GetBlockProof_work [of "CBlockIndex 200 10000 0x23000001 0 None"]
    by (simp add: a b c d)
qed

subsection \<open>GetBlockProof is anti-monotone\<close>




subsection \<open>Significant bits and the low 64 bits\<close>

lemma highest_bit_le_iff:
  "highest_bit n a \<le> k \<longleftrightarrow> (\<forall>i. k \<le> i \<and> i < n \<longrightarrow> \<not> bit a i)"
proof (induction n)
  case 0
  show ?case by simp
next
  case (Suc n)
  show ?case
  proof (cases "bit a n")
    case True
    then show ?thesis by (auto simp add: not_less_eq_eq)
  next
    case False
    then show ?thesis using Suc by (auto simp add: less_Suc_eq)
  qed
qed

lemma bits_le_iff:
  shows "bits a \<le> k \<longleftrightarrow> unat a < 2 ^ k"
proof -
  have "bits a \<le> k \<longleftrightarrow> (\<forall>i. k \<le> i \<and> i < 256 \<longrightarrow> \<not> bit a i)"
    by (simp add: bits_def highest_bit_le_iff)
  also have "\<dots> \<longleftrightarrow> take_bit k a = a"
  proof
    assume h: "\<forall>i. k \<le> i \<and> i < 256 \<longrightarrow> \<not> bit a i"
    show "take_bit k a = a"
    proof (rule bit_eqI)
      fix n
      show "bit (take_bit k a) n \<longleftrightarrow> bit a n"
        using h bit_imp_le_length [of a n] by (auto simp add: bit_take_bit_iff not_le [symmetric])
    qed
  next
    assume h: "take_bit k a = a"
    show "\<forall>i. k \<le> i \<and> i < 256 \<longrightarrow> \<not> bit a i"
    proof (intro allI impI)
      fix i assume "k \<le> i \<and> i < 256"
      then have "\<not> bit (take_bit k a) i" by (simp add: bit_take_bit_iff)
      then show "\<not> bit a i" unfolding h .
    qed
  qed
  also have "\<dots> \<longleftrightarrow> unat (take_bit k a) = unat a"
    by (simp only: word_unat_eq_iff)
  also have "\<dots> \<longleftrightarrow> unat a < 2 ^ k"
    by (simp only: unsigned_take_bit_eq take_bit_nat_eq_self_iff)
  finally show ?thesis .
qed

lemma bits_gt_63: "bits a > 63 \<longleftrightarrow> 2 ^ 63 \<le> unat a"
  using bits_le_iff [of a 63] by auto

lemma low64_small:
  assumes "unat a < 2 ^ 63"
  shows "sint (GetLow64 a) = uint a" and "sint (- GetLow64 a) = - uint a"
proof -
  have lt: "uint a < 2 ^ 63" using assms by transfer simp
  have ge: "- (2 ^ 63) \<le> uint a" and ge': "- (2 ^ 63) \<le> - uint a" and lt': "- uint a < 2 ^ 63"
    using lt uint_ge_0 [of a] by linarith+
  have "unat (GetLow64 a) = unat a"
    using assms by (simp add: GetLow64_def unsigned_ucast_eq take_bit_nat_eq_self)
  then have u: "uint (GetLow64 a) = uint a"
    by (simp only: uint_nat)
  have "sint (GetLow64 a) = signed_take_bit 63 (uint (GetLow64 a))"
    by (simp add: sint_uint)
  also have "\<dots> = uint a"
    unfolding u using lt ge by (intro signed_take_bit_int_eq_self) simp_all
  finally show s: "sint (GetLow64 a) = uint a" .
  have "sint (- GetLow64 a) = signed_take_bit 63 (- sint (GetLow64 a))"
    by (simp add: sint_word_ariths)
  also have "\<dots> = - uint a"
    unfolding s using lt' ge' by (intro signed_take_bit_int_eq_self) simp_all
  finally show "sint (- GetLow64 a) = - uint a" .
qed

subsection \<open>GetBlockProofEquivalentTime\<close>

lemma GetBlockProofEquivalentTime_defined:
  assumes "GetBlockProof tip = Inr w" "w \<noteq> 0"
  shows "GetBlockProofEquivalentTime to from' tip params =
     (let r = (if nChainWork to > nChainWork from'
               then nChainWork to - nChainWork from'
               else nChainWork from' - nChainWork to)
                * ucast (word_of_int (nPowTargetSpacing params) :: uint64) div w
      in if 2 ^ 63 \<le> unat r
         then Inr ((if nChainWork to > nChainWork from' then 1 else - 1) * (2 ^ 63 - 1))
         else Inr ((if nChainWork to > nChainWork from' then 1 else - 1) * uint r))"
  using assms
  by (simp add: GetBlockProofEquivalentTime_def arith_div_def Let_def bits_gt_63
      low64_small not_le)

lemma GetBlockProofEquivalentTime_zero_work:
  assumes "GetBlockProof tip = Inr 0"
  shows "GetBlockProofEquivalentTime to from' tip params = Inl DivisionByZero"
  using assms by (simp add: GetBlockProofEquivalentTime_def arith_div_def Let_def)

lemma unat_spacing_conversion:
  "unat (ucast (word_of_int k :: uint64) :: arith_uint256) = nat (k mod 2 ^ 64)"
proof -
  have "uint (word_of_int k :: uint64) = k mod 2 ^ 64"
    by (simp add: uint_word_of_int take_bit_eq_mod)
  then have u: "unat (word_of_int k :: uint64) = nat (k mod 2 ^ 64)"
    by (simp add: unat_eq_nat_uint)
  have "nat (k mod 2 ^ 64) < 2 ^ 256"
  proof -
    have "k mod 2 ^ 64 < 2 ^ 64" by simp
    then show ?thesis by (simp add: nat_less_iff)
  qed
  with u show ?thesis
    by (simp add: unsigned_ucast_eq take_bit_nat_eq_self)
qed

text \<open>
  Claim C7 (as amended). For entries \<open>to\<close>, \<open>from\<close> and \<open>tip\<close> with nonzero
  \<open>GetBlockProof tip\<close>: the magnitude is computed in 256-bit unsigned arithmetic, where
  the spacing is first converted to 64 unsigned bits and the product wraps modulo
  \<open>2 ^ 256\<close>. Whenever this magnitude,
  \<open>(|nChainWork to - nChainWork from| * nPowTargetSpacing mod 2 ^ 256) div GetBlockProof tip\<close>,
  has more than 63 significant bits (is at least \<open>2 ^ 63\<close>),
  \<open>GetBlockProofEquivalentTime\<close> returns \<open>sign * (2 ^ 63 - 1)\<close>, the largest \<^verbatim>\<open>int64_t\<close>
  magnitude with the sign of the difference, and not its low 64 bits. Whenever the
  spacing is a nonnegative 64-bit value and the exact product is below \<open>2 ^ 256\<close>, the
  magnitude is the exact quotient, and an exact quotient of at least \<open>2 ^ 63\<close> saturates.
\<close>

theorem GetBlockProofEquivalentTime_saturates:
  assumes "GetBlockProof tip = Inr w" and "w \<noteq> 0"
    and "r = (if nChainWork to > nChainWork from'
              then nChainWork to - nChainWork from'
              else nChainWork from' - nChainWork to)"
    and "sign = (if nChainWork to > nChainWork from' then 1 else - 1)"
  shows "(2 ^ 63 \<le> unat r * nat (nPowTargetSpacing params mod 2 ^ 64) mod 2 ^ 256 div unat w
           \<longrightarrow> GetBlockProofEquivalentTime to from' tip params = Inr (sign * (2 ^ 63 - 1)))
       \<and> (0 \<le> nPowTargetSpacing params \<and> nPowTargetSpacing params < 2 ^ 64
           \<and> unat r * nat (nPowTargetSpacing params) < 2 ^ 256
           \<and> 2 ^ 63 \<le> unat r * nat (nPowTargetSpacing params) div unat w
           \<longrightarrow> GetBlockProofEquivalentTime to from' tip params = Inr (sign * (2 ^ 63 - 1)))"
proof -
  let ?s = "ucast (word_of_int (nPowTargetSpacing params) :: uint64) :: arith_uint256"
  let ?k = "nat (nPowTargetSpacing params mod 2 ^ 64)"
  have m: "unat (r * ?s div w) = unat r * ?k mod 2 ^ 256 div unat w"
    by (simp add: unat_div unat_word_ariths unat_spacing_conversion)
  have first: "GetBlockProofEquivalentTime to from' tip params = Inr (sign * (2 ^ 63 - 1))"
    if "2 ^ 63 \<le> unat r * ?k mod 2 ^ 256 div unat w"
  proof -
    have "2 ^ 63 \<le> unat (r * ?s div w)" using that by (simp only: m)
    then show ?thesis
      using assms(3,4)
      by (simp add: GetBlockProofEquivalentTime_defined [OF assms(1,2)] Let_def)
  qed
  have second: "unat r * ?k mod 2 ^ 256 div unat w
      = unat r * nat (nPowTargetSpacing params) div unat w"
    if a: "0 \<le> nPowTargetSpacing params" and b: "nPowTargetSpacing params < 2 ^ 64"
      and c: "unat r * nat (nPowTargetSpacing params) < 2 ^ 256"
  proof -
    have "nPowTargetSpacing params mod 2 ^ 64 = nPowTargetSpacing params"
      using a b by simp
    then show ?thesis using c by simp
  qed
  show ?thesis using first second by auto
qed

theorem GetBlockProofEquivalentTime_saturates_witness:
  "GetBlockProof (CBlockIndex 200 10000 0x1e0fffff 0 None) = Inr 0x100001
   \<and> 2 ^ 63 \<le> unat (0x10000000000000000000000000 - 0 :: arith_uint256)
                    * nat (45 mod 2 ^ 64) mod 2 ^ 256 div unat (0x100001 :: arith_uint256)
   \<and> (0 :: int) \<le> 45 \<and> (45 :: int) < 2 ^ 64
   \<and> unat (0x10000000000000000000000000 - 0 :: arith_uint256) * nat 45 < 2 ^ 256
   \<and> 2 ^ 63 \<le> unat (0x10000000000000000000000000 - 0 :: arith_uint256) * nat 45
                  div unat (0x100001 :: arith_uint256)
   \<and> GetBlockProofEquivalentTime
        (CBlockIndex 201 10045 0x1e0fffff 0x10000000000000000000000000 None)
        (CBlockIndex 200 10000 0x1e0fffff 0 None)
        (CBlockIndex 200 10000 0x1e0fffff 0 None)
        \<lparr>powLimit = 0x00000fffffffffffffffffffffffffffffffffffffffffffffffffffffffffff,
         nPowTargetSpacing = 45, DifficultyAdjustmentInterval = 1,
         fPowAllowMinDifficultyBlocks = False, fPowNoRetargeting = False\<rparr>
       = Inr (2 ^ 63 - 1)
   \<and> GetBlockProofEquivalentTime
        (CBlockIndex 200 10000 0x1e0fffff 0 None)
        (CBlockIndex 201 10045 0x1e0fffff 0x10000000000000000000000000 None)
        (CBlockIndex 200 10000 0x1e0fffff 0 None)
        \<lparr>powLimit = 0x00000fffffffffffffffffffffffffffffffffffffffffffffffffffffffffff,
         nPowTargetSpacing = 45, DifficultyAdjustmentInterval = 1,
         fPowAllowMinDifficultyBlocks = False, fPowNoRetargeting = False\<rparr>
       = Inr (- (2 ^ 63 - 1))"
proof -
  have gp: "GetBlockProof (CBlockIndex 200 10000 0x1e0fffff 0 None) = Inr 0x100001"
    by code_simp
  have nz: "(0x100001 :: arith_uint256) \<noteq> 0" by simp
  show ?thesis
    using GetBlockProofEquivalentTime_saturates [OF gp nz refl refl, where
        to = "CBlockIndex 201 10045 0x1e0fffff 0x10000000000000000000000000 None"
        and from' = "CBlockIndex 200 10000 0x1e0fffff 0 None"
        and params = "\<lparr>powLimit = 0x00000fffffffffffffffffffffffffffffffffffffffffffffffffffffffffff,
          nPowTargetSpacing = 45, DifficultyAdjustmentInterval = 1,
          fPowAllowMinDifficultyBlocks = False, fPowNoRetargeting = False\<rparr>"]
      GetBlockProofEquivalentTime_saturates [OF gp nz refl refl, where
        to = "CBlockIndex 200 10000 0x1e0fffff 0 None"
        and from' = "CBlockIndex 201 10045 0x1e0fffff 0x10000000000000000000000000 None"
        and params = "\<lparr>powLimit = 0x00000fffffffffffffffffffffffffffffffffffffffffffffffffffffffffff,
          nPowTargetSpacing = 45, DifficultyAdjustmentInterval = 1,
          fPowAllowMinDifficultyBlocks = False, fPowNoRetargeting = False\<rparr>"]
    by (simp add: gp)
qed

text \<open>
  Claim C7 as stated fails. For a work difference of \<open>2 ^ 255\<close>, a spacing of 2 and a tip
  with compact target \<open>0x220000ff\<close>, whose work is 1, the exact magnitude is \<open>2 ^ 256\<close>,
  which has more than 63 significant bits; the 256-bit product wraps to 0 and the
  function returns 0 instead of \<open>2 ^ 63 - 1\<close>.
\<close>

theorem GetBlockProofEquivalentTime_wrap_counterexample:
  "GetBlockProof (CBlockIndex 200 10000 0x220000ff 0 None) = Inr 1
   \<and> 2 ^ 63 \<le> unat (0x8000000000000000000000000000000000000000000000000000000000000000 - 0
                        :: arith_uint256) * nat 2 div unat (1 :: arith_uint256)
   \<and> GetBlockProofEquivalentTime
        (CBlockIndex 201 10045 0x1e0fffff
           0x8000000000000000000000000000000000000000000000000000000000000000 None)
        (CBlockIndex 200 10000 0x1e0fffff 0 None)
        (CBlockIndex 200 10000 0x220000ff 0 None)
        \<lparr>powLimit = 0x00000fffffffffffffffffffffffffffffffffffffffffffffffffffffffffff,
         nPowTargetSpacing = 2, DifficultyAdjustmentInterval = 1,
         fPowAllowMinDifficultyBlocks = False, fPowNoRetargeting = False\<rparr>
       = Inr 0
   \<and> GetBlockProofEquivalentTime
        (CBlockIndex 201 10045 0x1e0fffff
           0x8000000000000000000000000000000000000000000000000000000000000000 None)
        (CBlockIndex 200 10000 0x1e0fffff 0 None)
        (CBlockIndex 200 10000 0x220000ff 0 None)
        \<lparr>powLimit = 0x00000fffffffffffffffffffffffffffffffffffffffffffffffffffffffffff,
         nPowTargetSpacing = 2, DifficultyAdjustmentInterval = 1,
         fPowAllowMinDifficultyBlocks = False, fPowNoRetargeting = False\<rparr>
       \<noteq> Inr (1 * (2 ^ 63 - 1))"
proof -
  have gp: "GetBlockProof (CBlockIndex 200 10000 0x220000ff 0 None) = Inr 1"
    by code_simp
  have e: "GetBlockProofEquivalentTime
        (CBlockIndex 201 10045 0x1e0fffff
           0x8000000000000000000000000000000000000000000000000000000000000000 None)
        (CBlockIndex 200 10000 0x1e0fffff 0 None)
        (CBlockIndex 200 10000 0x220000ff 0 None)
        \<lparr>powLimit = 0x00000fffffffffffffffffffffffffffffffffffffffffffffffffffffffffff,
         nPowTargetSpacing = 2, DifficultyAdjustmentInterval = 1,
         fPowAllowMinDifficultyBlocks = False, fPowNoRetargeting = False\<rparr>
       = Inr 0"
    by code_simp
  show ?thesis by (simp add: gp e)
qed

text \<open>
  Claim C8. For entries \<open>to\<close>, \<open>from\<close> and \<open>tip\<close> with nonzero \<open>GetBlockProof tip\<close> and
  every \<open>params\<close>, \<open>GetBlockProofEquivalentTime to from tip params\<close> is the negation of
  \<open>GetBlockProofEquivalentTime from to tip params\<close>: swapping the two entries negates the
  result and keeps its magnitude.
\<close>

theorem GetBlockProofEquivalentTime_swap:
  assumes "GetBlockProof tip = Inr w" and "w \<noteq> 0"
  shows "\<exists>x. GetBlockProofEquivalentTime to from' tip params = Inr x
           \<and> GetBlockProofEquivalentTime from' to tip params = Inr (- x)"
proof -
  consider (gt) "nChainWork to > nChainWork from'"
    | (lt) "nChainWork from' > nChainWork to"
    | (eq) "nChainWork to = nChainWork from'"
    by (cases "nChainWork to" "nChainWork from'" rule: linorder_cases) auto
  then show ?thesis
  proof cases
    case gt
    then have "\<not> nChainWork from' > nChainWork to" by simp
    with gt show ?thesis
      by (simp add: GetBlockProofEquivalentTime_defined [OF assms] Let_def)
  next
    case lt
    then have "\<not> nChainWork to > nChainWork from'" by simp
    with lt show ?thesis
      by (simp add: GetBlockProofEquivalentTime_defined [OF assms] Let_def)
  next
    case eq
    then show ?thesis
      by (simp add: GetBlockProofEquivalentTime_defined [OF assms] Let_def)
  qed
qed

theorem GetBlockProofEquivalentTime_swap_witness:
  "GetBlockProof (CBlockIndex 200 10000 0x1e0fffff 0 None) = Inr 0x100001
   \<and> GetBlockProofEquivalentTime
        (CBlockIndex 201 10045 0x1e0fffff 0x300003 None)
        (CBlockIndex 200 10000 0x1e0fffff 0x200002 None)
        (CBlockIndex 200 10000 0x1e0fffff 0 None)
        \<lparr>powLimit = 0x00000fffffffffffffffffffffffffffffffffffffffffffffffffffffffffff,
         nPowTargetSpacing = 45, DifficultyAdjustmentInterval = 1,
         fPowAllowMinDifficultyBlocks = False, fPowNoRetargeting = False\<rparr>
       = Inr 45
   \<and> GetBlockProofEquivalentTime
        (CBlockIndex 200 10000 0x1e0fffff 0x200002 None)
        (CBlockIndex 201 10045 0x1e0fffff 0x300003 None)
        (CBlockIndex 200 10000 0x1e0fffff 0 None)
        \<lparr>powLimit = 0x00000fffffffffffffffffffffffffffffffffffffffffffffffffffffffffff,
         nPowTargetSpacing = 45, DifficultyAdjustmentInterval = 1,
         fPowAllowMinDifficultyBlocks = False, fPowNoRetargeting = False\<rparr>
       = Inr (- 45)"
proof -
  have gp: "GetBlockProof (CBlockIndex 200 10000 0x1e0fffff 0 None) = Inr 0x100001"
    by code_simp
  have nz: "(0x100001 :: arith_uint256) \<noteq> 0" by simp
  have fwd: "GetBlockProofEquivalentTime
        (CBlockIndex 201 10045 0x1e0fffff 0x300003 None)
        (CBlockIndex 200 10000 0x1e0fffff 0x200002 None)
        (CBlockIndex 200 10000 0x1e0fffff 0 None)
        \<lparr>powLimit = 0x00000fffffffffffffffffffffffffffffffffffffffffffffffffffffffffff,
         nPowTargetSpacing = 45, DifficultyAdjustmentInterval = 1,
         fPowAllowMinDifficultyBlocks = False, fPowNoRetargeting = False\<rparr>
       = Inr 45"
    by code_simp
  show ?thesis
    using GetBlockProofEquivalentTime_swap [OF gp nz, where
        to = "CBlockIndex 201 10045 0x1e0fffff 0x300003 None"
        and from' = "CBlockIndex 200 10000 0x1e0fffff 0x200002 None"
        and params = "\<lparr>powLimit = 0x00000fffffffffffffffffffffffffffffffffffffffffffffffffffffffffff,
          nPowTargetSpacing = 45, DifficultyAdjustmentInterval = 1,
          fPowAllowMinDifficultyBlocks = False, fPowNoRetargeting = False\<rparr>"]
    by (simp add: gp fwd)
qed

text \<open>
  Claim C10. \<open>GetBlockProofEquivalentTime\<close> divides by \<open>GetBlockProof tip\<close> without a
  guard. For every tip whose compact target decodes without negative or overflow flag to
  a nonzero magnitude the divisor is nonzero and the function returns a value; for a tip
  whose target decodes negative, with overflow or to zero the divisor is 0 and the
  division has no result.
\<close>

theorem GetBlockProofEquivalentTime_divisor:
  "(case SetCompact (nBits tip) of (bnTarget, fNegative, fOverflow) \<Rightarrow>
      if fNegative \<or> fOverflow \<or> bnTarget = 0
      then GetBlockProof tip = Inr 0
           \<and> GetBlockProofEquivalentTime to from' tip params = Inl DivisionByZero
      else (\<exists>w. GetBlockProof tip = Inr w \<and> w \<noteq> 0)
           \<and> (\<exists>x. GetBlockProofEquivalentTime to from' tip params = Inr x))"
proof -
  obtain t neg ovf where s: "SetCompact (nBits tip) = (t, neg, ovf)"
    by (cases "SetCompact (nBits tip)")
  show ?thesis
  proof (cases "neg \<or> ovf \<or> t = 0")
    case True
    then have z: "GetBlockProof tip = Inr 0" by (rule GetBlockProof_invalid [OF s])
    have "GetBlockProofEquivalentTime to from' tip params = Inl DivisionByZero"
      by (rule GetBlockProofEquivalentTime_zero_work [OF z])
    with z s True show ?thesis by auto
  next
    case False
    then have s': "SetCompact (nBits tip) = (t, False, False)" and t: "t \<noteq> 0"
      using s by simp_all
    have t1: "t + 1 \<noteq> 0" using SetCompact_succ_nonzero [of "nBits tip"] s by simp
    have g: "GetBlockProof tip = Inr (NOT t div (t + 1) + 1)"
      by (rule GetBlockProof_valid [OF s' t])
    have nz: "NOT t div (t + 1) + 1 \<noteq> 0" by (rule work_value_pos [OF t t1])
    have "\<exists>x. GetBlockProofEquivalentTime to from' tip params = Inr x"
      by (simp add: GetBlockProofEquivalentTime_defined [OF g nz] Let_def)
    with g nz s False show ?thesis by auto
  qed
qed

theorem GetBlockProofEquivalentTime_divisor_witness:
  "GetBlockProof (CBlockIndex 200 10000 0x01800000 0 None) = Inr 0
   \<and> GetBlockProofEquivalentTime
        (CBlockIndex 201 10045 0x1e0fffff 0x300003 None)
        (CBlockIndex 200 10000 0x1e0fffff 0x200002 None)
        (CBlockIndex 200 10000 0x01800000 0 None)
        \<lparr>powLimit = 0x00000fffffffffffffffffffffffffffffffffffffffffffffffffffffffffff,
         nPowTargetSpacing = 45, DifficultyAdjustmentInterval = 1,
         fPowAllowMinDifficultyBlocks = False, fPowNoRetargeting = False\<rparr>
       = Inl DivisionByZero
   \<and> (\<exists>w. GetBlockProof (CBlockIndex 200 10000 0x1e0fffff 0 None) = Inr w \<and> w \<noteq> 0)
   \<and> (\<exists>x. GetBlockProofEquivalentTime
        (CBlockIndex 201 10045 0x1e0fffff 0x300003 None)
        (CBlockIndex 200 10000 0x1e0fffff 0x200002 None)
        (CBlockIndex 200 10000 0x1e0fffff 0 None)
        \<lparr>powLimit = 0x00000fffffffffffffffffffffffffffffffffffffffffffffffffffffffffff,
         nPowTargetSpacing = 45, DifficultyAdjustmentInterval = 1,
         fPowAllowMinDifficultyBlocks = False, fPowNoRetargeting = False\<rparr>
       = Inr x)"
proof -
  have z: "SetCompact 0x01800000 = (0, False, False)" by code_simp
  have s: "SetCompact 0x1e0fffff
      = (0xfffff000000000000000000000000000000000000000000000000000000, False, False)"
    by code_simp
  show ?thesis
    using GetBlockProofEquivalentTime_divisor [where
        tip = "CBlockIndex 200 10000 0x01800000 0 None"
        and to = "CBlockIndex 201 10045 0x1e0fffff 0x300003 None"
        and from' = "CBlockIndex 200 10000 0x1e0fffff 0x200002 None"
        and params = "\<lparr>powLimit = 0x00000fffffffffffffffffffffffffffffffffffffffffffffffffffffffffff,
          nPowTargetSpacing = 45, DifficultyAdjustmentInterval = 1,
          fPowAllowMinDifficultyBlocks = False, fPowNoRetargeting = False\<rparr>"]
      GetBlockProofEquivalentTime_divisor [where
        tip = "CBlockIndex 200 10000 0x1e0fffff 0 None"
        and to = "CBlockIndex 201 10045 0x1e0fffff 0x300003 None"
        and from' = "CBlockIndex 200 10000 0x1e0fffff 0x200002 None"
        and params = "\<lparr>powLimit = 0x00000fffffffffffffffffffffffffffffffffffffffffffffffffffffffffff,
          nPowTargetSpacing = 45, DifficultyAdjustmentInterval = 1,
          fPowAllowMinDifficultyBlocks = False, fPowNoRetargeting = False\<rparr>"]
    by (simp add: z s)
qed

subsection \<open>The adjustment-step limit\<close>

lemma era_bounds:
  "nMinActualTimespan1 = 7128" "nMaxActualTimespan1 = 7920"
  "nMinActualTimespan2 = 356" "nMaxActualTimespan2 = 363"
  "nMinActualTimespan3 = 356" "nMaxActualTimespan3 = 370"
  "nAveragingTargetTimespan1 = 7200" "nAveragingTargetTimespan2 = 360"
  "nAveragingTargetTimespan3 = 360" "nAveragingInterval1 = 160"
  "nAveragingInterval2 = 8" "nAveragingInterval3 = 8"
  by (simp_all add: era_constants)

lemma limit_adjustment_step_range:
  "era_nMinActualTimespan pindexLast \<le> limit_adjustment_step pindexLast nFirstBlockTime"
  "limit_adjustment_step pindexLast nFirstBlockTime \<le> era_nMaxActualTimespan pindexLast"
  by (simp_all add: limit_adjustment_step_def Let_def era_nMinActualTimespan_def
      era_nMaxActualTimespan_def era_bounds nHeightVer2_def nHeightVer3_def)

text \<open>
  Claim C1 (as amended). In every call of \<open>CalculateNextWorkRequired\<close> with retargeting
  enabled, the actual timespan (tip timestamp minus first-block timestamp) is clamped
  into the bounds that the constants of the code give: for a candidate height below
  32000 into \<open>[7200 * 99 div 100, 7200 * 110 div 100] = [7128, 7920]\<close> (at most 1% below
  and 10% above the averaging timespan), for a candidate height in \<open>[32000, 90000)\<close> into
  \<open>[356, 363]\<close> (1% and 1% of 360), and from 90000 on into \<open>[356, 370]\<close> (1% below,
  3% above).
\<close>

theorem limit_adjustment_step_era_bounds:
  "(if nHeight pindexLast + 1 < 32000
    then 7128 \<le> limit_adjustment_step pindexLast nFirstBlockTime
         \<and> limit_adjustment_step pindexLast nFirstBlockTime \<le> 7920
    else if nHeight pindexLast + 1 < 90000
    then 356 \<le> limit_adjustment_step pindexLast nFirstBlockTime
         \<and> limit_adjustment_step pindexLast nFirstBlockTime \<le> 363
    else 356 \<le> limit_adjustment_step pindexLast nFirstBlockTime
         \<and> limit_adjustment_step pindexLast nFirstBlockTime \<le> 370)
   \<and> limit_adjustment_step pindexLast nFirstBlockTime
       = max (era_nMinActualTimespan pindexLast)
           (min (era_nMaxActualTimespan pindexLast) (GetBlockTime pindexLast - nFirstBlockTime))"
  using limit_adjustment_step_range [of pindexLast nFirstBlockTime]
  by (auto simp add: era_nMinActualTimespan_def era_nMaxActualTimespan_def era_bounds
      nHeightVer2_def nHeightVer3_def limit_adjustment_step_def Let_def)

theorem limit_adjustment_step_era_bounds_witness:
  "limit_adjustment_step (CBlockIndex 200 10000 0x1e0fffff 0 None) 2000 = 7920
   \<and> limit_adjustment_step (CBlockIndex 200 10000 0x1e0fffff 0 None) 3000 = 7128
   \<and> limit_adjustment_step (CBlockIndex 32049 10000 0x1e0fffff 0 None) 9000 = 363
   \<and> limit_adjustment_step (CBlockIndex 32049 10000 0x1e0fffff 0 None) 9999 = 356
   \<and> limit_adjustment_step (CBlockIndex 90000 10000 0x1e0fffff 0 None) 9000 = 370
   \<and> limit_adjustment_step (CBlockIndex 90000 10000 0x1e0fffff 0 None) 9999 = 356"
  using limit_adjustment_step_era_bounds [of "CBlockIndex 200 10000 0x1e0fffff 0 None" 2000]
    limit_adjustment_step_era_bounds [of "CBlockIndex 200 10000 0x1e0fffff 0 None" 3000]
    limit_adjustment_step_era_bounds [of "CBlockIndex 32049 10000 0x1e0fffff 0 None" 9000]
    limit_adjustment_step_era_bounds [of "CBlockIndex 32049 10000 0x1e0fffff 0 None" 9999]
    limit_adjustment_step_era_bounds [of "CBlockIndex 90000 10000 0x1e0fffff 0 None" 9000]
    limit_adjustment_step_era_bounds [of "CBlockIndex 90000 10000 0x1e0fffff 0 None" 9999]
  by (simp add: era_nMinActualTimespan_def era_nMaxActualTimespan_def era_bounds
      nHeightVer2_def nHeightVer3_def GetBlockTime_def)

text \<open>
  Claim C1 as stated fails. The bounds of the shrink/grow table read the other way round (10% below and 1% above
  in the first era, 3% below and 1% above in the third) do not hold: a timespan of 7900
  at height 200 and one of 368 at height 90000 are left as they are.
\<close>

theorem spec_era_table_counterexample:
  "\<not> (7200 * 90 div 100 \<le> limit_adjustment_step (CBlockIndex 200 10000 0x1e0fffff 0 None) 2100
      \<and> limit_adjustment_step (CBlockIndex 200 10000 0x1e0fffff 0 None) 2100 \<le> 7200 * 101 div 100)
   \<and> \<not> (360 * 97 div 100 \<le> limit_adjustment_step (CBlockIndex 90000 10000 0x1e0fffff 0 None) 9632
      \<and> limit_adjustment_step (CBlockIndex 90000 10000 0x1e0fffff 0 None) 9632 \<le> 360 * 101 div 100)"
  by (simp add: limit_adjustment_step_def Let_def era_nMinActualTimespan_def
      era_nMaxActualTimespan_def era_bounds nHeightVer2_def nHeightVer3_def GetBlockTime_def)

subsection \<open>The retarget\<close>

lemma unat_word_of_int_small:
  assumes "0 \<le> k" "k < 2 ^ 256"
  shows "unat (word_of_int k :: arith_uint256) = nat k"
proof -
  have "uint (word_of_int k :: arith_uint256) = k"
    using assms by (simp add: uint_word_of_int take_bit_int_eq_self)
  then show ?thesis by (simp add: unat_eq_nat_uint)
qed

lemma CalculateNextWorkRequired_retarget:
  assumes "\<not> fPowNoRetargeting params"
  shows "CalculateNextWorkRequired pindexLast nFirstBlockTime params =
     GetCompact (min (UintToArith256 (powLimit params))
       (fst (SetCompact (nBits pindexLast))
          * word_of_int (limit_adjustment_step pindexLast nFirstBlockTime)
        div word_of_int (era_nAveragingTargetTimespan pindexLast)))"
  using assms by (auto simp add: CalculateNextWorkRequired_def Let_def min_def)

lemma era_nAveragingTargetTimespan_cases:
  "era_nAveragingTargetTimespan pindexLast = 7200 \<or> era_nAveragingTargetTimespan pindexLast = 360"
  by (simp add: era_nAveragingTargetTimespan_def era_bounds)

lemma limit_adjustment_step_small:
  "0 \<le> limit_adjustment_step pindexLast nFirstBlockTime"
  "limit_adjustment_step pindexLast nFirstBlockTime < 2 ^ 256"
  using limit_adjustment_step_range [of pindexLast nFirstBlockTime]
  by (auto simp add: era_nMinActualTimespan_def era_nMaxActualTimespan_def era_bounds
      split: if_splits)

text \<open>
  Claim C2 (as amended). When \<open>fPowNoRetargeting\<close> is false,
  \<open>CalculateNextWorkRequired\<close> returns the compact encoding of the minimum of
  \<open>powLimit\<close> and \<open>(Decode (nBits tip) * clampedActualTimespan mod 2 ^ 256) div
  eraAveragingTimespan\<close>: the multiplication precedes the division, both are 256-bit
  unsigned operations, and the product wraps modulo \<open>2 ^ 256\<close>. Whenever the exact product
  is below \<open>2 ^ 256\<close> nothing wraps and the result is the compact encoding of
  \<open>min powLimit (Decode (nBits tip) * clampedActualTimespan div eraAveragingTimespan)\<close>.
\<close>

theorem CalculateNextWorkRequired_wrapping:
  assumes "\<not> fPowNoRetargeting params"
  shows "CalculateNextWorkRequired pindexLast nFirstBlockTime params =
     GetCompact (min (UintToArith256 (powLimit params))
       (word_of_nat
          (unat (fst (SetCompact (nBits pindexLast)))
             * nat (limit_adjustment_step pindexLast nFirstBlockTime) mod 2 ^ 256
           div nat (era_nAveragingTargetTimespan pindexLast))))
   \<and> (unat (fst (SetCompact (nBits pindexLast)))
          * nat (limit_adjustment_step pindexLast nFirstBlockTime) < 2 ^ 256
        \<longrightarrow> CalculateNextWorkRequired pindexLast nFirstBlockTime params =
            GetCompact (min (UintToArith256 (powLimit params))
              (word_of_nat
                 (unat (fst (SetCompact (nBits pindexLast)))
                    * nat (limit_adjustment_step pindexLast nFirstBlockTime)
                  div nat (era_nAveragingTargetTimespan pindexLast)))))"
proof -
  let ?t = "fst (SetCompact (nBits pindexLast))"
  let ?c = "limit_adjustment_step pindexLast nFirstBlockTime"
  let ?a = "era_nAveragingTargetTimespan pindexLast"
  have c: "unat (word_of_int ?c :: arith_uint256) = nat ?c"
    by (rule unat_word_of_int_small [OF limit_adjustment_step_small])
  have a: "unat (word_of_int ?a :: arith_uint256) = nat ?a"
    using era_nAveragingTargetTimespan_cases [of pindexLast]
    by (intro unat_word_of_int_small) auto
  have "unat (?t * word_of_int ?c div word_of_int ?a) = unat ?t * nat ?c mod 2 ^ 256 div nat ?a"
    by (simp add: unat_div unat_word_ariths c a)
  then have "word_of_nat (unat (?t * word_of_int ?c div word_of_int ?a))
      = (word_of_nat (unat ?t * nat ?c mod 2 ^ 256 div nat ?a) :: arith_uint256)"
    by (rule arg_cong)
  then have "?t * word_of_int ?c div word_of_int ?a
      = word_of_nat (unat ?t * nat ?c mod 2 ^ 256 div nat ?a)"
    by (simp only: of_nat_unat ucast_id)
  then have first: "CalculateNextWorkRequired pindexLast nFirstBlockTime params =
     GetCompact (min (UintToArith256 (powLimit params))
       (word_of_nat (unat ?t * nat ?c mod 2 ^ 256 div nat ?a)))"
    by (simp add: CalculateNextWorkRequired_retarget [OF assms])
  show ?thesis using first by auto
qed

theorem CalculateNextWorkRequired_wrapping_witness:
  "\<not> fPowNoRetargeting \<lparr>powLimit = 0x00000fffffffffffffffffffffffffffffffffffffffffffffffffffffffffff,
        nPowTargetSpacing = 45, DifficultyAdjustmentInterval = 1,
        fPowAllowMinDifficultyBlocks = False, fPowNoRetargeting = False\<rparr>
   \<and> unat (fst (SetCompact (nBits (CBlockIndex 200 10000 0x1d0fffff 0 None))))
         * nat (limit_adjustment_step (CBlockIndex 200 10000 0x1d0fffff 0 None) 3000) < 2 ^ 256
   \<and> CalculateNextWorkRequired (CBlockIndex 200 10000 0x1d0fffff 0 None) 3000
        \<lparr>powLimit = 0x00000fffffffffffffffffffffffffffffffffffffffffffffffffffffffffff,
         nPowTargetSpacing = 45, DifficultyAdjustmentInterval = 1,
         fPowAllowMinDifficultyBlocks = False, fPowNoRetargeting = False\<rparr>
       = GetCompact 0xfd7094000000000000000000000000000000000000000000000000000"
proof -
  have s: "SetCompact 0x1d0fffff
      = (0xfffff0000000000000000000000000000000000000000000000000000, False, False)"
    by code_simp
  have l: "limit_adjustment_step (CBlockIndex 200 10000 0x1d0fffff 0 None) 3000 = 7128"
    by (simp add: limit_adjustment_step_def Let_def era_nMinActualTimespan_def
        era_nMaxActualTimespan_def era_bounds nHeightVer2_def nHeightVer3_def GetBlockTime_def)
  have a: "era_nAveragingTargetTimespan (CBlockIndex 200 10000 0x1d0fffff 0 None) = 7200"
    by (simp add: era_nAveragingTargetTimespan_def era_bounds nHeightVer2_def nHeightVer3_def)
  show ?thesis
    using CalculateNextWorkRequired_wrapping [of
        "\<lparr>powLimit = 0x00000fffffffffffffffffffffffffffffffffffffffffffffffffffffffffff,
          nPowTargetSpacing = 45, DifficultyAdjustmentInterval = 1,
          fPowAllowMinDifficultyBlocks = False, fPowNoRetargeting = False\<rparr>"
        "CBlockIndex 200 10000 0x1d0fffff 0 None" 3000]
    by (simp add: s l a UintToArith256_def)
qed

text \<open>
  Claim C2 as stated fails. The multiplication can overflow: for a tip with compact target \<open>0x207fffff\<close> and an
  actual timespan of 7200 the exact product is at least \<open>2 ^ 256\<close>, and the result is
  not the compact encoding of the exact quotient.
\<close>

theorem CalculateNextWorkRequired_overflow_counterexample:
  "\<not> fPowNoRetargeting \<lparr>powLimit = 0x7fffffffffffffffffffffffffffffffffffffffffffffffffffffffffffffff,
        nPowTargetSpacing = 45, DifficultyAdjustmentInterval = 1,
        fPowAllowMinDifficultyBlocks = False, fPowNoRetargeting = False\<rparr>
   \<and> 2 ^ 256 \<le> unat (fst (SetCompact (nBits (CBlockIndex 200 10000 0x207fffff 0 None))))
         * nat (limit_adjustment_step (CBlockIndex 200 10000 0x207fffff 0 None) 2800)
   \<and> CalculateNextWorkRequired (CBlockIndex 200 10000 0x207fffff 0 None) 2800
        \<lparr>powLimit = 0x7fffffffffffffffffffffffffffffffffffffffffffffffffffffffffffffff,
         nPowTargetSpacing = 45, DifficultyAdjustmentInterval = 1,
         fPowAllowMinDifficultyBlocks = False, fPowNoRetargeting = False\<rparr>
       \<noteq> GetCompact (min (UintToArith256 0x7fffffffffffffffffffffffffffffffffffffffffffffffffffffffffffffff)
           (word_of_nat
              (unat (fst (SetCompact (nBits (CBlockIndex 200 10000 0x207fffff 0 None))))
                 * nat (limit_adjustment_step (CBlockIndex 200 10000 0x207fffff 0 None) 2800)
               div nat (era_nAveragingTargetTimespan (CBlockIndex 200 10000 0x207fffff 0 None)))))"
proof -
  have s: "SetCompact 0x207fffff
      = (0x7fffff0000000000000000000000000000000000000000000000000000000000, False, False)"
    by code_simp
  have l: "limit_adjustment_step (CBlockIndex 200 10000 0x207fffff 0 None) 2800 = 7200"
    by (simp add: limit_adjustment_step_def Let_def era_nMinActualTimespan_def
        era_nMaxActualTimespan_def era_bounds nHeightVer2_def nHeightVer3_def GetBlockTime_def)
  have a: "era_nAveragingTargetTimespan (CBlockIndex 200 10000 0x207fffff 0 None) = 7200"
    by (simp add: era_nAveragingTargetTimespan_def era_bounds nHeightVer2_def nHeightVer3_def)
  have c: "CalculateNextWorkRequired (CBlockIndex 200 10000 0x207fffff 0 None) 2800
        \<lparr>powLimit = 0x7fffffffffffffffffffffffffffffffffffffffffffffffffffffffffffffff,
         nPowTargetSpacing = 45, DifficultyAdjustmentInterval = 1,
         fPowAllowMinDifficultyBlocks = False, fPowNoRetargeting = False\<rparr> = 0x1f09192b"
    by code_simp
  have g: "GetCompact 0x7fffff0000000000000000000000000000000000000000000000000000000000
      = 0x207fffff"
    by code_simp
  show ?thesis
    by (simp add: s l a c g UintToArith256_def)
qed

subsection \<open>CheckProofOfWork and the genesis guard\<close>

text \<open>
  Claim C3. \<open>CheckProofOfWork hash nBits params\<close> returns false exactly when the decode
  of \<open>nBits\<close> gives the negative flag, or the overflow flag, or a zero magnitude, or a
  magnitude above \<open>powLimit\<close>, or when the hash, read as a 256-bit unsigned integer,
  exceeds the decoded magnitude. In every other case, in particular when the hash equals
  the decoded target, it returns true. The function is pure: the diagnostic message is
  its only effect.
\<close>

theorem CheckProofOfWork_iff:
  "(case SetCompact nBits' of (bnTarget, fNegative, fOverflow) \<Rightarrow>
      (CheckProofOfWork hash nBits' params = False \<longleftrightarrow>
         fNegative \<or> fOverflow \<or> bnTarget = 0
         \<or> bnTarget > UintToArith256 (powLimit params)
         \<or> UintToArith256 hash > bnTarget)
      \<and> (\<not> fNegative \<and> \<not> fOverflow \<and> bnTarget \<noteq> 0
           \<and> bnTarget \<le> UintToArith256 (powLimit params)
           \<and> UintToArith256 hash = bnTarget
          \<longrightarrow> CheckProofOfWork hash nBits' params = True))"
  by (auto simp add: CheckProofOfWork_def split: prod.splits)

theorem CheckProofOfWork_iff_witness:
  "CheckProofOfWork 0xfffff0000000000000000000000000000000000000000000000000000 0x1d0fffff
     \<lparr>powLimit = 0x00000fffffffffffffffffffffffffffffffffffffffffffffffffffffffffff,
      nPowTargetSpacing = 45, DifficultyAdjustmentInterval = 1,
      fPowAllowMinDifficultyBlocks = False, fPowNoRetargeting = False\<rparr> = True
   \<and> CheckProofOfWork 0xfffff0000000000000000000000000000000000000000000000000001 0x1d0fffff
     \<lparr>powLimit = 0x00000fffffffffffffffffffffffffffffffffffffffffffffffffffffffffff,
      nPowTargetSpacing = 45, DifficultyAdjustmentInterval = 1,
      fPowAllowMinDifficultyBlocks = False, fPowNoRetargeting = False\<rparr> = False
   \<and> CheckProofOfWork 0 0x23000001
     \<lparr>powLimit = 0x00000fffffffffffffffffffffffffffffffffffffffffffffffffffffffffff,
      nPowTargetSpacing = 45, DifficultyAdjustmentInterval = 1,
      fPowAllowMinDifficultyBlocks = False, fPowNoRetargeting = False\<rparr> = False"
proof -
  have s: "SetCompact 0x1d0fffff
      = (0xfffff0000000000000000000000000000000000000000000000000000, False, False)"
    by code_simp
  have o: "SetCompact 0x23000001 = (0, False, True)" by code_simp
  show ?thesis
    using CheckProofOfWork_iff [where nBits' = "0x1d0fffff"
        and hash = "0xfffff0000000000000000000000000000000000000000000000000000"
        and params = "\<lparr>powLimit = 0x00000fffffffffffffffffffffffffffffffffffffffffffffffffffffffffff,
          nPowTargetSpacing = 45, DifficultyAdjustmentInterval = 1,
          fPowAllowMinDifficultyBlocks = False, fPowNoRetargeting = False\<rparr>"]
      CheckProofOfWork_iff [where nBits' = "0x1d0fffff"
        and hash = "0xfffff0000000000000000000000000000000000000000000000000001"
        and params = "\<lparr>powLimit = 0x00000fffffffffffffffffffffffffffffffffffffffffffffffffffffffffff,
          nPowTargetSpacing = 45, DifficultyAdjustmentInterval = 1,
          fPowAllowMinDifficultyBlocks = False, fPowNoRetargeting = False\<rparr>"]
      CheckProofOfWork_iff [where nBits' = "0x23000001" and hash = 0
        and params = "\<lparr>powLimit = 0x00000fffffffffffffffffffffffffffffffffffffffffffffffffffffffffff,
          nPowTargetSpacing = 45, DifficultyAdjustmentInterval = 1,
          fPowAllowMinDifficultyBlocks = False, fPowNoRetargeting = False\<rparr>"]
    by (simp add: s o UintToArith256_def)
qed

text \<open>
  Claim C4. For every candidate header and every \<open>params\<close>, \<open>GetNextWorkRequired\<close>
  returns the compact encoding of \<open>powLimit\<close> when the tip pointer is null and when the
  candidate height, the tip height plus one, is below 160.
\<close>

theorem GetNextWorkRequired_genesis_guard:
  "GetNextWorkRequired None pblock params = Inr (GetCompact (UintToArith256 (powLimit params)))
   \<and> (nHeight tip + 1 < 160 \<longrightarrow>
        GetNextWorkRequired (Some tip) pblock params
          = Inr (GetCompact (UintToArith256 (powLimit params))))"
  by (simp add: GetNextWorkRequired_def Let_def nAveragingInterval1_def nInterval_def
      nTargetTimespan_def nTargetSpacing_def)

theorem GetNextWorkRequired_genesis_guard_witness:
  "nHeight (CBlockIndex 158 10000 0x1d0fffff 0 None) + 1 < 160
   \<and> GetNextWorkRequired (Some (CBlockIndex 158 10000 0x1d0fffff 0 None)) \<lparr>hdr_nTime = 10045\<rparr>
        \<lparr>powLimit = 0x00000fffffffffffffffffffffffffffffffffffffffffffffffffffffffffff,
         nPowTargetSpacing = 45, DifficultyAdjustmentInterval = 1,
         fPowAllowMinDifficultyBlocks = False, fPowNoRetargeting = False\<rparr>
       = Inr 0x1e0fffff"
proof -
  have g: "GetCompact 0x00000fffffffffffffffffffffffffffffffffffffffffffffffffffffffffff = 0x1e0fffff"
    by code_simp
  show ?thesis
    using GetNextWorkRequired_genesis_guard [of "\<lparr>hdr_nTime = 10045\<rparr>"
        "\<lparr>powLimit = 0x00000fffffffffffffffffffffffffffffffffffffffffffffffffffffffffff,
          nPowTargetSpacing = 45, DifficultyAdjustmentInterval = 1,
          fPowAllowMinDifficultyBlocks = False, fPowNoRetargeting = False\<rparr>"
        "CBlockIndex 158 10000 0x1d0fffff 0 None"]
    by (simp add: g UintToArith256_def)
qed

subsection \<open>The test-network rule\<close>

lemma smod_eq_0_iff_dvd:
  fixes a b :: int
  assumes "b \<noteq> 0"
  shows "a smod b = 0 \<longleftrightarrow> b dvd a"
proof -
  have "a smod b = 0 \<longleftrightarrow> a = 0 \<or> \<bar>a\<bar> mod \<bar>b\<bar> = 0"
    by (simp add: smod_int_alt_def sgn_0_0)
  also have "\<dots> \<longleftrightarrow> a = 0 \<or> \<bar>b\<bar> dvd \<bar>a\<bar>"
    by (simp add: dvd_eq_mod_eq_0)
  also have "\<dots> \<longleftrightarrow> b dvd a" by auto
  finally show ?thesis .
qed

lemma last_non_min_difficulty_stop:
  assumes "interval \<noteq> 0"
  shows "\<exists>e. find (\<lambda>e. pprev e = None \<or> interval dvd nHeight e \<or> nBits e \<noteq> lim)
               (ancestors c) = Some e
           \<and> last_non_min_difficulty interval lim c = Inr (nBits e)"
  using assms
  by (induction interval lim c rule: last_non_min_difficulty.induct)
    (auto simp add: smod_eq_0_iff_dvd)

lemma last_non_min_difficulty_first_break:
  assumes "interval \<noteq> 0"
    and "find (\<lambda>e. interval dvd nHeight e \<or> nBits e \<noteq> lim) (ancestors c) = Some e"
  shows "last_non_min_difficulty interval lim c = Inr (nBits e)"
  using assms
  by (induction interval lim c rule: last_non_min_difficulty.induct)
    (auto simp add: smod_eq_0_iff_dvd split: if_splits)

text \<open>
  On a chain view whose entry without predecessor is the genesis entry at height 0, an
  ancestor at a multiple of the interval always exists, so the walk always ends at one
  of the two conditions on the entry itself.
\<close>

lemma genesis_breaks_the_walk:
  assumes "\<forall>e \<in> set (ancestors c). pprev e = None \<longrightarrow> nHeight e = 0"
  shows "\<exists>e. find (\<lambda>e. interval dvd nHeight e \<or> nBits e \<noteq> lim) (ancestors c) = Some e"
  using assms
  by (induction c rule: ancestors.induct) auto

text \<open>
  Claim C6. When \<open>fPowAllowMinDifficultyBlocks\<close> is true and the genesis guard has
  passed: if the candidate's timestamp exceeds the tip's timestamp by more than twice
  \<open>nPowTargetSpacing\<close>, \<open>GetNextWorkRequired\<close> returns the compact encoding of
  \<open>powLimit\<close>. Otherwise (the adjustment interval being nonzero) it goes back from the tip
  while the entry has a predecessor, its height is not a multiple of the adjustment
  interval and it used the compact \<open>powLimit\<close> target; it returns the \<open>nBits\<close> of the
  entry where this stops, which is the first ancestor that breaks one of the latter two
  conditions whenever there is one.
\<close>

theorem GetNextWorkRequired_min_difficulty:
  assumes "fPowAllowMinDifficultyBlocks params" and "\<not> nHeight tip + 1 < 160"
  shows "(GetBlockTime_hdr pblock > GetBlockTime tip + 2 * nPowTargetSpacing params \<longrightarrow>
            GetNextWorkRequired (Some tip) pblock params
              = Inr (GetCompact (UintToArith256 (powLimit params))))
       \<and> (\<not> GetBlockTime_hdr pblock > GetBlockTime tip + 2 * nPowTargetSpacing params
            \<and> DifficultyAdjustmentInterval params \<noteq> 0 \<longrightarrow>
            (\<exists>e. find (\<lambda>e. pprev e = None
                          \<or> DifficultyAdjustmentInterval params dvd nHeight e
                          \<or> nBits e \<noteq> GetCompact (UintToArith256 (powLimit params)))
                      (ancestors tip) = Some e
                 \<and> GetNextWorkRequired (Some tip) pblock params = Inr (nBits e))
            \<and> (\<forall>e. find (\<lambda>e. DifficultyAdjustmentInterval params dvd nHeight e
                          \<or> nBits e \<noteq> GetCompact (UintToArith256 (powLimit params)))
                      (ancestors tip) = Some e
                   \<longrightarrow> GetNextWorkRequired (Some tip) pblock params = Inr (nBits e)))"
proof -
  let ?lim = "GetCompact (UintToArith256 (powLimit params))"
  let ?I = "DifficultyAdjustmentInterval params"
  have guard: "\<not> nHeight tip + 1 < nAveragingInterval1"
    using assms(2) by (simp add: nAveragingInterval1_def nInterval_def nTargetTimespan_def
        nTargetSpacing_def)
  have late: "GetNextWorkRequired (Some tip) pblock params = Inr ?lim"
    if "GetBlockTime_hdr pblock > GetBlockTime tip + 2 * nPowTargetSpacing params"
    using that assms(1) guard by (simp add: GetNextWorkRequired_def Let_def)
  have walk: "GetNextWorkRequired (Some tip) pblock params
      = last_non_min_difficulty ?I ?lim tip"
    if "\<not> GetBlockTime_hdr pblock > GetBlockTime tip + 2 * nPowTargetSpacing params"
    using that assms(1) guard by (simp add: GetNextWorkRequired_def Let_def)
  show ?thesis
    using late walk last_non_min_difficulty_stop [of ?I ?lim tip]
      last_non_min_difficulty_first_break [of ?I ?lim tip]
    by auto
qed

theorem GetNextWorkRequired_min_difficulty_witness:
  "GetNextWorkRequired
     (Some (CBlockIndex 201 10045 0x1e0fffff 0 (Some (CBlockIndex 200 10000 0x1d0fffff 0 None))))
     \<lparr>hdr_nTime = 10200\<rparr>
     \<lparr>powLimit = 0x00000fffffffffffffffffffffffffffffffffffffffffffffffffffffffffff,
      nPowTargetSpacing = 45, DifficultyAdjustmentInterval = 100,
      fPowAllowMinDifficultyBlocks = True, fPowNoRetargeting = False\<rparr> = Inr 0x1e0fffff
   \<and> GetNextWorkRequired
     (Some (CBlockIndex 201 10045 0x1e0fffff 0 (Some (CBlockIndex 200 10000 0x1d0fffff 0 None))))
     \<lparr>hdr_nTime = 10050\<rparr>
     \<lparr>powLimit = 0x00000fffffffffffffffffffffffffffffffffffffffffffffffffffffffffff,
      nPowTargetSpacing = 45, DifficultyAdjustmentInterval = 100,
      fPowAllowMinDifficultyBlocks = True, fPowNoRetargeting = False\<rparr> = Inr 0x1d0fffff"
proof -
  have g: "GetCompact 0x00000fffffffffffffffffffffffffffffffffffffffffffffffffffffffffff = 0x1e0fffff"
    by code_simp
  show ?thesis
    using GetNextWorkRequired_min_difficulty [where
        tip = "CBlockIndex 201 10045 0x1e0fffff 0 (Some (CBlockIndex 200 10000 0x1d0fffff 0 None))"
        and pblock = "\<lparr>hdr_nTime = 10200\<rparr>"
        and params = "\<lparr>powLimit = 0x00000fffffffffffffffffffffffffffffffffffffffffffffffffffffffffff,
          nPowTargetSpacing = 45, DifficultyAdjustmentInterval = 100,
          fPowAllowMinDifficultyBlocks = True, fPowNoRetargeting = False\<rparr>"]
      GetNextWorkRequired_min_difficulty [where
        tip = "CBlockIndex 201 10045 0x1e0fffff 0 (Some (CBlockIndex 200 10000 0x1d0fffff 0 None))"
        and pblock = "\<lparr>hdr_nTime = 10050\<rparr>"
        and params = "\<lparr>powLimit = 0x00000fffffffffffffffffffffffffffffffffffffffffffffffffffffffffff,
          nPowTargetSpacing = 45, DifficultyAdjustmentInterval = 100,
          fPowAllowMinDifficultyBlocks = True, fPowNoRetargeting = False\<rparr>"]
    by (simp add: g UintToArith256_def GetBlockTime_def GetBlockTime_hdr_def)
qed

end
